theory Spec2Isabelle
  imports Main
begin

section \<open>JavaScript values, errors and the browser's storage\<close>

text \<open>
  The values that travel through the query cache and through \<open>JSON.parse\<close> /
  \<open>JSON.stringify\<close>. \<open>undefined\<close> is not a constructor: a slot that may hold
  \<open>undefined\<close> has an option type and \<open>None\<close> stands for it. Numbers are
  integers (epoch milliseconds and JSON integers); \<open>NaN\<close> appears only as the result
  of \<open>parseInt\<close>, where it is \<open>None\<close>. Strings are ASCII.
\<close>

datatype jsval =
    JNull
  | JBool bool
  | JNum int
  | JStr string
  | JArr "jsval list"
  | JObj "(string \<times> jsval) list"

text \<open>ToBoolean: an array or an object is truthy, also an empty one.\<close>

fun truthy :: "jsval \<Rightarrow> bool" where
  "truthy JNull = False"
| "truthy (JBool b) = b"
| "truthy (JNum n) = (n \<noteq> 0)"
| "truthy (JStr s) = (s \<noteq> [])"
| "truthy (JArr xs) = True"
| "truthy (JObj kvs) = True"

text \<open>Truthiness of \<open>string | null\<close> (what \<open>getItem\<close> returns) and of
  \<open>unknown | undefined\<close> (what \<open>query.state.data\<close> holds).\<close>

definition truthy_str :: "string option \<Rightarrow> bool" where
  "truthy_str r = (case r of None \<Rightarrow> False | Some s \<Rightarrow> s \<noteq> [])"

definition truthy_opt :: "jsval option \<Rightarrow> bool" where
  "truthy_opt r = (case r of None \<Rightarrow> False | Some v \<Rightarrow> truthy v)"

datatype js_error =
    SecurityError
  | QuotaExceededError
  | SyntaxError
  | TypeError
  | NetworkError

text \<open>
  \<open>window.localStorage\<close>: reading the property throws a SecurityError when the
  document is denied access to storage; otherwise it is a string-keyed store.
  \<open>getItem\<close> gives \<open>null\<close> (here \<open>None\<close>) for a missing key, \<open>removeItem\<close>
  of a missing key does nothing, and \<open>setItem\<close> throws a QuotaExceededError when the
  new contents do not fit; what fits is the parameter \<open>room\<close>.
\<close>

datatype storage = Denied | Granted "string \<rightharpoonup> string"

definition localStorage :: "storage \<Rightarrow> js_error + (string \<rightharpoonup> string)" where
  "localStorage s = (case s of Denied \<Rightarrow> Inl SecurityError | Granted m \<Rightarrow> Inr m)"

definition getItem :: "string \<Rightarrow> storage \<Rightarrow> js_error + string option" where
  "getItem k s = (case localStorage s of Inl e \<Rightarrow> Inl e | Inr m \<Rightarrow> Inr (m k))"

definition removeItem :: "string \<Rightarrow> storage \<Rightarrow> js_error + storage" where
  "removeItem k s =
     (case localStorage s of Inl e \<Rightarrow> Inl e | Inr m \<Rightarrow> Inr (Granted (m(k := None))))"

definition setItem ::
  "((string \<rightharpoonup> string) \<Rightarrow> bool) \<Rightarrow> string \<Rightarrow> string \<Rightarrow> (string \<rightharpoonup> string)
     \<Rightarrow> js_error + storage" where
  "setItem room k v m =
     (if room (m(k \<mapsto> v)) then Inr (Granted (m(k \<mapsto> v))) else Inl QuotaExceededError)"

subsection \<open>\<open>parseInt(s, 10)\<close> and \<open>Number.prototype.toString\<close>\<close>

definition is_space :: "char \<Rightarrow> bool" where
  "is_space c = ((of_char c :: nat) \<in> {9, 10, 11, 12, 13, 32})"

definition is_digit :: "char \<Rightarrow> bool" where
  "is_digit c = (48 \<le> (of_char c :: nat) \<and> (of_char c :: nat) \<le> 57)"

definition digit_val :: "char \<Rightarrow> nat" where
  "digit_val c = of_char c - 48"

definition digits_val :: "string \<Rightarrow> nat" where
  "digits_val ds = foldl (\<lambda>acc c. 10 * acc + digit_val c) 0 ds"

text \<open>
  \<open>parseInt\<close> with radix 10: leading white space is skipped, one sign is read, then the
  longest run of decimal digits; no digit at all gives \<open>NaN\<close> (\<open>None\<close>).
\<close>

definition parseInt :: "string \<Rightarrow> int option" where
  "parseInt s =
     (let s1 = dropWhile is_space s;
          sign = (case s1 of c # _ \<Rightarrow> (if c = CHR ''-'' then - 1 else 1) | [] \<Rightarrow> (1::int));
          s2 = (case s1 of c # r \<Rightarrow> (if c = CHR ''-'' \<or> c = CHR ''+'' then r else s1) | [] \<Rightarrow> s1);
          z = takeWhile is_digit s2
      in if z = [] then None else Some (sign * int (digits_val z)))"

definition digit_char :: "nat \<Rightarrow> char" where
  "digit_char d = ''0123456789'' ! d"

fun digits10 :: "nat \<Rightarrow> string" where
  "digits10 n = (if n < 10 then [digit_char n] else digits10 (n div 10) @ [digit_char (n mod 10)])"

declare digits10.simps [simp del]

definition toString :: "int \<Rightarrow> string" where
  "toString n = (if n < 0 then CHR ''-'' # digits10 (nat (- n)) else digits10 (nat n))"

section \<open>fetchProjects: from Contentful entries to projects\<close>

text \<open>
  The interfaces of the source as records. A field the code reads through \<open>?.\<close>, or
  that an entry may lack at run time (the cast to \<open>ContentfulProjectFields\<close> is
  unchecked), has an option type; \<open>None\<close> is \<open>undefined\<close>.
\<close>

record ContentfulFile =
  file_url :: "string option"

record ContentfulImageFields =
  image_file :: "ContentfulFile option"

record ContentfulImage =
  image_fields :: "ContentfulImageFields option"

record ContentfulProjectFields =
  field_title :: "string option"
  field_url :: "string option"
  field_image :: "ContentfulImage option"

record ContentfulProjectSys =
  sys_id :: string

record ContentfulProject =
  entry_fields :: ContentfulProjectFields
  entry_sys :: ContentfulProjectSys

record Project =
  title :: "string option"
  url :: "string option"
  ident :: string
  img :: "string option"

text \<open>\<open>image?.fields?.file?.url\<close>\<close>

definition image_url :: "ContentfulImage option \<Rightarrow> string option" where
  "image_url image_opt =
     Option.bind image_opt (\<lambda>i. Option.bind (image_fields i) (\<lambda>f. Option.bind (image_file f) file_url))"

text \<open>The callback passed to \<open>response.items.map\<close>.\<close>

definition project_of :: "ContentfulProject \<Rightarrow> Project" where
  "project_of item =
     (let flds = entry_fields item;
          t = field_title flds; u = field_url flds; image_opt = field_image flds;
          i = sys_id (entry_sys item);
          im = image_url image_opt
      in \<lparr>title = t, url = u, ident = i, img = im\<rparr>)"

definition mappedProjects :: "ContentfulProject list \<Rightarrow> Project list" where
  "mappedProjects items = map project_of items"

text \<open>
  \<open>fetchProjects\<close> awaits \<open>client.getEntries\<close>; its outcome (a rejection or the
  response's items) is the argument, and a rejection is passed on.
\<close>

definition fetchProjects :: "js_error + ContentfulProject list \<Rightarrow> js_error + Project list" where
  "fetchProjects response =
     (case response of Inl e \<Rightarrow> Inl e | Inr items \<Rightarrow> Inr (mappedProjects items))"

section \<open>The query client and its configuration\<close>

record query_options =
  staleTime :: int
  gcTime :: int
  refetchOnWindowFocus :: bool
  refetchOnMount :: bool
  refetchOnReconnect :: bool
  retry :: nat

definition defaultOptions :: query_options where
  "defaultOptions =
     \<lparr>staleTime = 1000 * 60 * 5, gcTime = 1000 * 60 * 10, refetchOnWindowFocus = False,
      refetchOnMount = False, refetchOnReconnect = True, retry = 1\<rparr>"

definition CACHE_KEY :: string where
  "CACHE_KEY = ''REACT_QUERY_CACHE''"

definition CACHE_TIMESTAMP_KEY :: string where
  "CACHE_TIMESTAMP_KEY = ''REACT_QUERY_CACHE_TIMESTAMP''"

definition CACHE_DURATION :: int where
  "CACHE_DURATION = 1000 * 60 * 5"

text \<open>The in-memory query cache: the data held under each query key.\<close>

type_synonym query_cache = "jsval list \<rightharpoonup> jsval"

definition setQueryData :: "jsval list \<Rightarrow> jsval \<Rightarrow> query_cache \<Rightarrow> query_cache" where
  "setQueryData queryKey v qc = qc(queryKey \<mapsto> v)"

text \<open>
  What the bootstrap code reads and writes: the browser's storage, the query cache and the
  console, a list of warnings each with the error it reports.
\<close>

record app_state =
  storage :: storage
  queryCache :: query_cache
  console :: "(string \<times> js_error) list"

definition warn :: "string \<Rightarrow> js_error \<Rightarrow> app_state \<Rightarrow> app_state" where
  "warn msg e st = st\<lparr>console := console st @ [(msg, e)]\<rparr>"

section \<open>Restoring the cache at start-up\<close>

text \<open>\<open>now - timestamp < CACHE_DURATION\<close>; a comparison with \<open>NaN\<close> is false.\<close>

definition is_fresh :: "int \<Rightarrow> int option \<Rightarrow> bool" where
  "is_fresh now timestamp =
     (case timestamp of None \<Rightarrow> False | Some t \<Rightarrow> now - t < CACHE_DURATION)"

text \<open>
  The body of the \<open>try\<close> block. \<open>JSON.parse\<close> is the parameter \<open>json_parse\<close>
  (\<open>None\<close>: it throws a SyntaxError) and \<open>Date.now()\<close> the parameter \<open>now\<close>.
  No statement of the block changes the state before a later one can throw, so an
  exception leaves the state as it was at entry.
\<close>

definition restore_try ::
  "(string \<Rightarrow> jsval option) \<Rightarrow> int \<Rightarrow> app_state \<Rightarrow> js_error + app_state" where
  "restore_try json_parse now st =
     (case getItem CACHE_KEY (storage st) of
        Inl e \<Rightarrow> Inl e
      | Inr cachedData \<Rightarrow>
         (case getItem CACHE_TIMESTAMP_KEY (storage st) of
            Inl e \<Rightarrow> Inl e
          | Inr cacheTimestamp \<Rightarrow>
             if truthy_str cachedData \<and> truthy_str cacheTimestamp then
               (let timestamp = parseInt (the cacheTimestamp) in
                if is_fresh now timestamp then
                  (case json_parse (the cachedData) of
                     None \<Rightarrow> Inl SyntaxError
                   | Some parsedCache \<Rightarrow>
                       Inr (st\<lparr>queryCache :=
                                 setQueryData [JStr ''projects''] parsedCache (queryCache st)\<rparr>))
                else
                  (case removeItem CACHE_KEY (storage st) of
                     Inl e \<Rightarrow> Inl e
                   | Inr s1 \<Rightarrow>
                      (case removeItem CACHE_TIMESTAMP_KEY s1 of
                         Inl e \<Rightarrow> Inl e
                       | Inr s2 \<Rightarrow> Inr (st\<lparr>storage := s2\<rparr>))))
             else Inr st))"

text \<open>The \<open>catch\<close> block: a warning, then both keys are removed, outside any \<open>try\<close>.\<close>

definition restore_catch :: "js_error \<Rightarrow> app_state \<Rightarrow> js_error + app_state" where
  "restore_catch err st =
     (let st1 = warn ''Failed to restore cache from localStorage:'' err st in
      case removeItem CACHE_KEY (storage st1) of
        Inl e \<Rightarrow> Inl e
      | Inr s1 \<Rightarrow>
         (case removeItem CACHE_TIMESTAMP_KEY s1 of
            Inl e \<Rightarrow> Inl e
          | Inr s2 \<Rightarrow> Inr (st1\<lparr>storage := s2\<rparr>)))"

definition hydrate ::
  "(string \<Rightarrow> jsval option) \<Rightarrow> int \<Rightarrow> app_state \<Rightarrow> js_error + app_state" where
  "hydrate json_parse now st =
     (case restore_try json_parse now st of
        Inr st' \<Rightarrow> Inr st'
      | Inl err \<Rightarrow> restore_catch err st)"

text \<open>At process start the query client is new and nothing has been logged.\<close>

definition initial_state :: "storage \<Rightarrow> app_state" where
  "initial_state s = \<lparr>storage = s, queryCache = Map.empty, console = []\<rparr>"

section \<open>Persisting the cache on query-cache events\<close>

record query =
  queryKey :: "jsval list option"
  state_data :: "jsval option"

record cache_event =
  event_type :: string
  event_query :: "query option"

text \<open>\<open>event?.query?.queryKey?.[0]\<close>\<close>

definition first_key :: "cache_event option \<Rightarrow> jsval option" where
  "first_key event =
     Option.bind event (\<lambda>ev. Option.bind (event_query ev) (\<lambda>q. Option.bind (queryKey q)
       (\<lambda>k. case k of [] \<Rightarrow> None | x # _ \<Rightarrow> Some x)))"

text \<open>\<open>event.query.state.data\<close>, read only after the first conjunct has held.\<close>

definition event_data :: "cache_event option \<Rightarrow> jsval option" where
  "event_data event = Option.bind event (\<lambda>ev. Option.bind (event_query ev) state_data)"

definition persists :: "cache_event option \<Rightarrow> bool" where
  "persists event = (first_key event = Some (JStr ''projects'') \<and> truthy_opt (event_data event))"

text \<open>
  The body of the listener's \<open>try\<close> block, on the storage alone. \<open>localStorage\<close> is
  read before the argument \<open>JSON.stringify(data)\<close> is evaluated (\<open>stringify\<close>,
  \<open>None\<close>: it throws a TypeError). An exception is returned with the storage as it
  is at that moment: the first write stays when the second one fails.
\<close>

definition persist_try ::
  "(jsval \<Rightarrow> string option) \<Rightarrow> ((string \<rightharpoonup> string) \<Rightarrow> bool) \<Rightarrow> int \<Rightarrow> jsval \<Rightarrow> storage
     \<Rightarrow> (js_error \<times> storage) + storage" where
  "persist_try stringify room now d s =
     (case localStorage s of
        Inl e \<Rightarrow> Inl (e, s)
      | Inr m \<Rightarrow>
         (case stringify d of
            None \<Rightarrow> Inl (TypeError, s)
          | Some blob \<Rightarrow>
             (case setItem room CACHE_KEY blob m of
                Inl e \<Rightarrow> Inl (e, s)
              | Inr s1 \<Rightarrow>
                 (case localStorage s1 of
                    Inl e \<Rightarrow> Inl (e, s1)
                  | Inr m1 \<Rightarrow>
                     (case setItem room CACHE_TIMESTAMP_KEY (toString now) m1 of
                        Inl e \<Rightarrow> Inl (e, s1)
                      | Inr s2 \<Rightarrow> Inr s2)))))"

definition persist_listener ::
  "(jsval \<Rightarrow> string option) \<Rightarrow> ((string \<rightharpoonup> string) \<Rightarrow> bool) \<Rightarrow> int \<Rightarrow> cache_event option
     \<Rightarrow> app_state \<Rightarrow> js_error + app_state" where
  "persist_listener stringify room now event st =
     (if persists event then
        (case persist_try stringify room now (the (event_data event)) (storage st) of
           Inr s' \<Rightarrow> Inr (st\<lparr>storage := s'\<rparr>)
         | Inl (err, s') \<Rightarrow>
             Inr (warn ''Failed to persist cache to localStorage:'' err (st\<lparr>storage := s'\<rparr>)))
      else Inr st)"

section \<open>useFetchProjects\<close>

text \<open>
  Modelled from the spec: the query library's fetch cycle, which is a dependency and not
  among the sources. A cycle calls the query function; after a failure it calls it again as
  long as retries are left, and gives up with the last error otherwise. The attempts are a
  function from the attempt's number to its outcome; the result is the cycle's outcome and
  the number of calls made.
\<close>

fun fetch_cycle :: "nat \<Rightarrow> (nat \<Rightarrow> js_error + 'a) \<Rightarrow> nat \<Rightarrow> (js_error + 'a) \<times> nat" where
  "fetch_cycle 0 attempt k = (attempt k, Suc k)"
| "fetch_cycle (Suc retries) attempt k =
     (case attempt k of
        Inr d \<Rightarrow> (Inr d, Suc k)
      | Inl e \<Rightarrow> fetch_cycle retries attempt (Suc k))"

text \<open>
  Modelled from the spec: the result object of \<open>useQuery\<close> once a cycle has settled.
  A success replaces the data; a failure keeps the data known before and is recorded in
  \<open>error\<close>; \<open>isPending\<close> holds only while there is neither data nor an error.
\<close>

record 'a query_result =
  data :: "'a option"
  isPending :: bool
  error :: "js_error option"

definition settle :: "'a option \<Rightarrow> js_error + 'a \<Rightarrow> 'a query_result" where
  "settle known outcome =
     (case outcome of
        Inr d \<Rightarrow> \<lparr>data = Some d, isPending = False, error = None\<rparr>
      | Inl e \<Rightarrow> \<lparr>data = known, isPending = False, error = Some e\<rparr>)"

definition useQuery :: "query_options \<Rightarrow> 'a option \<Rightarrow> (nat \<Rightarrow> js_error + 'a) \<Rightarrow> 'a query_result" where
  "useQuery opts known attempt = settle known (fst (fetch_cycle (retry opts) attempt 0))"

record UseFetchProjectsReturn =
  loading :: bool
  projects :: "Project list"

text \<open>
  \<open>const { data: projects = [], isPending: loading } = useQuery({ queryKey, queryFn })\<close>
  with the client's default options: the query function is \<open>fetchProjects\<close>, run on
  the outcome \<open>getEntries k\<close> of the content source at attempt \<open>k\<close>;
  \<open>known\<close> is the data the cache holds before the cycle.
\<close>

definition useFetchProjects ::
  "Project list option \<Rightarrow> (nat \<Rightarrow> js_error + ContentfulProject list) \<Rightarrow> UseFetchProjectsReturn" where
  "useFetchProjects known getEntries =
     (let r = useQuery defaultOptions known (\<lambda>k. fetchProjects (getEntries k))
      in \<lparr>loading = isPending r, projects = (case data r of None \<Rightarrow> [] | Some d \<Rightarrow> d)\<rparr>)"

section \<open>Auxiliary facts\<close>

lemma parseInt_Nil: "parseInt [] = None"
  by (simp add: parseInt_def)

lemma keys_distinct: "CACHE_KEY \<noteq> CACHE_TIMESTAMP_KEY"
  by (simp add: CACHE_KEY_def CACHE_TIMESTAMP_KEY_def)

text \<open>The \<open>try\<close> block of the restore step on an accessible store, branch by branch.\<close>

lemma restore_try_granted:
  assumes "m CACHE_KEY = Some d" "m CACHE_TIMESTAMP_KEY = Some ts" "d \<noteq> []" "ts \<noteq> []"
  shows "restore_try json_parse now \<lparr>storage = Granted m, queryCache = qc, console = lg\<rparr> =
     (if is_fresh now (parseInt ts) then
        (case json_parse d of
           None \<Rightarrow> Inl SyntaxError
         | Some v \<Rightarrow>
             Inr \<lparr>storage = Granted m, queryCache = qc([JStr ''projects''] \<mapsto> v), console = lg\<rparr>)
      else Inr \<lparr>storage = Granted (m(CACHE_KEY := None, CACHE_TIMESTAMP_KEY := None)),
                queryCache = qc, console = lg\<rparr>)"
  using assms
  by (simp add: restore_try_def getItem_def removeItem_def localStorage_def truthy_str_def
        setQueryData_def split: option.split)

lemma restore_try_skip:
  assumes "\<not> (truthy_str (m CACHE_KEY) \<and> truthy_str (m CACHE_TIMESTAMP_KEY))"
  shows "restore_try json_parse now \<lparr>storage = Granted m, queryCache = qc, console = lg\<rparr> =
           Inr \<lparr>storage = Granted m, queryCache = qc, console = lg\<rparr>"
  using assms by (auto simp add: restore_try_def getItem_def localStorage_def)

lemma restore_catch_granted:
  "restore_catch e \<lparr>storage = Granted m, queryCache = qc, console = lg\<rparr> =
     Inr \<lparr>storage = Granted (m(CACHE_KEY := None, CACHE_TIMESTAMP_KEY := None)), queryCache = qc,
          console = lg @ [(''Failed to restore cache from localStorage:'', e)]\<rparr>"
  by (simp add: restore_catch_def warn_def removeItem_def localStorage_def Let_def)

lemma hydrate_granted_returns:
  "\<exists>st'. hydrate json_parse now \<lparr>storage = Granted m, queryCache = qc, console = lg\<rparr> = Inr st'"
  by (cases "restore_try json_parse now \<lparr>storage = Granted m, queryCache = qc, console = lg\<rparr>")
     (simp_all add: hydrate_def restore_catch_granted)

text \<open>
  When the document is denied access to storage, the first read throws, and so does
  \<open>removeItem\<close> in the \<open>catch\<close> block, which no handler encloses: the exception
  leaves the restore step.
\<close>

lemma hydrate_storage_denied:
  "hydrate json_parse now \<lparr>storage = Denied, queryCache = qc, console = lg\<rparr> = Inl SecurityError"
  by (simp add: hydrate_def restore_try_def restore_catch_def getItem_def removeItem_def
        localStorage_def warn_def Let_def)

text \<open>The listener's \<open>try\<close> block, failure by failure.\<close>

lemma persist_try_denied:
  "persist_try stringify room now d Denied = Inl (SecurityError, Denied)"
  by (simp add: persist_try_def localStorage_def)

lemma persist_try_granted:
  "persist_try stringify room now d (Granted m) =
     (case stringify d of
        None \<Rightarrow> Inl (TypeError, Granted m)
      | Some blob \<Rightarrow>
          if \<not> room (m(CACHE_KEY \<mapsto> blob)) then Inl (QuotaExceededError, Granted m)
          else if \<not> room (m(CACHE_KEY \<mapsto> blob, CACHE_TIMESTAMP_KEY \<mapsto> toString now))
               then Inl (QuotaExceededError, Granted (m(CACHE_KEY \<mapsto> blob)))
               else Inr (Granted (m(CACHE_KEY \<mapsto> blob, CACHE_TIMESTAMP_KEY \<mapsto> toString now))))"
  by (simp add: persist_try_def localStorage_def setItem_def split: option.split)

lemma persist_listener_returns:
  "\<exists>st'. persist_listener stringify room now event st = Inr st' \<and> queryCache st' = queryCache st"
  by (simp add: persist_listener_def warn_def split: sum.split prod.split)

section \<open>The transform of fetchProjects\<close>

text \<open>
  Claim C1, as amended. For every batch of entries and every entry of it that lacks
  \<open>title\<close> (or \<open>url\<close>), the transform returns, without an exception, a list of
  the same length in which that entry's project has the field \<open>undefined\<close>; the
  field is not replaced by an empty string.
\<close>

theorem missing_required_field_stays_undefined:
  assumes "i < length items"
  shows "\<exists>ps. fetchProjects (Inr items) = Inr ps \<and> length ps = length items \<and>
           (field_title (entry_fields (items ! i)) = None \<longrightarrow> title (ps ! i) = None) \<and>
           (field_url (entry_fields (items ! i)) = None \<longrightarrow> url (ps ! i) = None)"
  using assms by (simp add: fetchProjects_def mappedProjects_def project_of_def Let_def)

theorem missing_required_field_stays_undefined_witness:
  "\<exists>ps. fetchProjects (Inr
      [\<lparr>entry_fields = \<lparr>field_title = Some ''A'', field_url = Some ''u1'', field_image = None\<rparr>,
        entry_sys = \<lparr>sys_id = ''1''\<rparr>\<rparr>,
       \<lparr>entry_fields = \<lparr>field_title = None, field_url = None, field_image = None\<rparr>,
        entry_sys = \<lparr>sys_id = ''2''\<rparr>\<rparr>,
       \<lparr>entry_fields = \<lparr>field_title = Some ''C'', field_url = Some ''u3'', field_image = None\<rparr>,
        entry_sys = \<lparr>sys_id = ''3''\<rparr>\<rparr>]) = Inr ps
     \<and> length ps = 3 \<and> title (ps ! 1) = None \<and> url (ps ! 1) = None"
  using missing_required_field_stays_undefined [where i = 1 and items =
      "[\<lparr>entry_fields = \<lparr>field_title = Some ''A'', field_url = Some ''u1'', field_image = None\<rparr>,
        entry_sys = \<lparr>sys_id = ''1''\<rparr>\<rparr>,
       \<lparr>entry_fields = \<lparr>field_title = None, field_url = None, field_image = None\<rparr>,
        entry_sys = \<lparr>sys_id = ''2''\<rparr>\<rparr>,
       \<lparr>entry_fields = \<lparr>field_title = Some ''C'', field_url = Some ''u3'', field_image = None\<rparr>,
        entry_sys = \<lparr>sys_id = ''3''\<rparr>\<rparr>]"]
  by auto

text \<open>
  Against claim C1 as stated: of three entries the second lacks \<open>title\<close>; its project
  has the title \<open>undefined\<close>, which is not the empty string.
\<close>

theorem missing_title_is_not_empty_string:
  "fetchProjects (Inr
      [\<lparr>entry_fields = \<lparr>field_title = Some ''A'', field_url = Some ''u1'', field_image = None\<rparr>,
        entry_sys = \<lparr>sys_id = ''1''\<rparr>\<rparr>,
       \<lparr>entry_fields = \<lparr>field_title = None, field_url = Some ''u2'', field_image = None\<rparr>,
        entry_sys = \<lparr>sys_id = ''2''\<rparr>\<rparr>,
       \<lparr>entry_fields = \<lparr>field_title = Some ''C'', field_url = Some ''u3'', field_image = None\<rparr>,
        entry_sys = \<lparr>sys_id = ''3''\<rparr>\<rparr>]) =
     Inr [\<lparr>title = Some ''A'', url = Some ''u1'', ident = ''1'', img = None\<rparr>,
          \<lparr>title = None, url = Some ''u2'', ident = ''2'', img = None\<rparr>,
          \<lparr>title = Some ''C'', url = Some ''u3'', ident = ''3'', img = None\<rparr>]
   \<and> title \<lparr>title = None, url = Some ''u2'', ident = ''2'', img = None\<rparr> \<noteq> Some []"
  by (simp add: fetchProjects_def mappedProjects_def project_of_def image_url_def Let_def)

text \<open>
  Claim C5. An entry without the optional image gives a project without \<open>img\<close> whose
  \<open>id\<close>, \<open>title\<close> and \<open>url\<close> are the entry's own; wherever it stands in a batch,
  the fetch succeeds and the project stands at the same place.
\<close>

theorem absent_image_gives_no_img:
  "field_image (entry_fields e) = None \<Longrightarrow>
     project_of e = \<lparr>title = field_title (entry_fields e), url = field_url (entry_fields e),
                     ident = sys_id (entry_sys e), img = None\<rparr> \<and>
     fetchProjects (Inr (xs @ e # ys)) = Inr (mappedProjects xs @ project_of e # mappedProjects ys)"
  by (simp add: project_of_def image_url_def fetchProjects_def mappedProjects_def Let_def)

theorem absent_image_gives_no_img_witness:
  "project_of
     \<lparr>entry_fields = \<lparr>field_title = Some ''Blog'', field_url = Some ''https://x'', field_image = None\<rparr>,
      entry_sys = \<lparr>sys_id = ''a1''\<rparr>\<rparr> =
     \<lparr>title = Some ''Blog'', url = Some ''https://x'', ident = ''a1'', img = None\<rparr> \<and>
   fetchProjects (Inr
     [\<lparr>entry_fields = \<lparr>field_title = Some ''Blog'', field_url = Some ''https://x'', field_image = None\<rparr>,
       entry_sys = \<lparr>sys_id = ''a1''\<rparr>\<rparr>]) =
     Inr [\<lparr>title = Some ''Blog'', url = Some ''https://x'', ident = ''a1'', img = None\<rparr>]"
  using absent_image_gives_no_img [where xs = "[]" and ys = "[]" and e =
     "\<lparr>entry_fields = \<lparr>field_title = Some ''Blog'', field_url = Some ''https://x'', field_image = None\<rparr>,
       entry_sys = \<lparr>sys_id = ''a1''\<rparr>\<rparr>"]
  by (simp add: mappedProjects_def)

text \<open>
  Claim C6. The transform is one-to-one and keeps the order: the output has the length of
  the input and its \<open>i\<close>-th project is made from the \<open>i\<close>-th entry.
\<close>

theorem transform_one_to_one_in_order:
  "\<exists>ps. fetchProjects (Inr items) = Inr ps \<and> length ps = length items \<and>
        (\<forall>i<length items. ps ! i = project_of (items ! i))"
  by (simp add: fetchProjects_def mappedProjects_def)

theorem transform_one_to_one_in_order_witness:
  "\<exists>ps. fetchProjects (Inr
      [\<lparr>entry_fields = \<lparr>field_title = Some ''B'', field_url = Some ''u2'', field_image = None\<rparr>,
        entry_sys = \<lparr>sys_id = ''2''\<rparr>\<rparr>,
       \<lparr>entry_fields = \<lparr>field_title = Some ''A'', field_url = Some ''u1'', field_image = None\<rparr>,
        entry_sys = \<lparr>sys_id = ''1''\<rparr>\<rparr>]) = Inr ps \<and>
     length ps = 2 \<and>
     ps ! 0 = \<lparr>title = Some ''B'', url = Some ''u2'', ident = ''2'', img = None\<rparr> \<and>
     ps ! 1 = \<lparr>title = Some ''A'', url = Some ''u1'', ident = ''1'', img = None\<rparr>"
  using transform_one_to_one_in_order [where items =
      "[\<lparr>entry_fields = \<lparr>field_title = Some ''B'', field_url = Some ''u2'', field_image = None\<rparr>,
        entry_sys = \<lparr>sys_id = ''2''\<rparr>\<rparr>,
       \<lparr>entry_fields = \<lparr>field_title = Some ''A'', field_url = Some ''u1'', field_image = None\<rparr>,
        entry_sys = \<lparr>sys_id = ''1''\<rparr>\<rparr>]"]
  by (auto simp: project_of_def image_url_def Let_def)

section \<open>The freshness constants\<close>

text \<open>
  Claim C4. The duration the restore step compares the stored age with is the stale time
  of the query client's default options: both are five minutes in milliseconds.
\<close>

theorem cache_duration_equals_staleTime:
  "CACHE_DURATION = staleTime defaultOptions \<and> CACHE_DURATION = 1000 * 60 * 5"
  by (simp add: CACHE_DURATION_def defaultOptions_def)

section \<open>Restoring the cache at start-up\<close>

text \<open>
  Claim C2. When the store holds a data blob that parses (so it is not empty:
  \<open>JSON.parse\<close> of the empty string throws) and a time stamp that parses to \<open>t\<close>,
  the restore step at process start puts the parsed data under the key \<open>["projects"]\<close>
  of the query cache and leaves the store alone if \<open>now - t < CACHE_DURATION\<close>;
  otherwise it removes both keys from the store and leaves the query cache empty.
\<close>

theorem hydrate_seeds_iff_fresh:
  assumes "m CACHE_KEY = Some d" "m CACHE_TIMESTAMP_KEY = Some ts" "d \<noteq> []"
    and "json_parse d = Some v" "parseInt ts = Some t"
  shows "hydrate json_parse now (initial_state (Granted m)) =
           Inr (if now - t < CACHE_DURATION
                then \<lparr>storage = Granted m, queryCache = [[JStr ''projects''] \<mapsto> v], console = []\<rparr>
                else \<lparr>storage = Granted (m(CACHE_KEY := None, CACHE_TIMESTAMP_KEY := None)),
                      queryCache = Map.empty, console = []\<rparr>)"
proof -
  from assms(5) have "ts \<noteq> []"
    by (auto simp: parseInt_Nil)
  with assms show ?thesis
    by (simp add: hydrate_def initial_state_def restore_try_granted is_fresh_def)
qed

text \<open>
  The boundary: a record stored at time 1 is restored at time \<open>CACHE_DURATION\<close> (its
  age is one millisecond short of the duration) and removed one millisecond later.
\<close>

theorem hydrate_seeds_iff_fresh_witness:
  "hydrate (\<lambda>s. Some (JArr [])) 300000
       (initial_state (Granted [CACHE_KEY \<mapsto> ''[]'', CACHE_TIMESTAMP_KEY \<mapsto> ''1''])) =
      Inr \<lparr>storage = Granted [CACHE_KEY \<mapsto> ''[]'', CACHE_TIMESTAMP_KEY \<mapsto> ''1''],
           queryCache = [[JStr ''projects''] \<mapsto> JArr []], console = []\<rparr>
   \<and> hydrate (\<lambda>s. Some (JArr [])) 300001
       (initial_state (Granted [CACHE_KEY \<mapsto> ''[]'', CACHE_TIMESTAMP_KEY \<mapsto> ''1''])) =
      Inr \<lparr>storage = Granted Map.empty, queryCache = Map.empty, console = []\<rparr>"
  using hydrate_seeds_iff_fresh [where m = "[CACHE_KEY \<mapsto> ''[]'', CACHE_TIMESTAMP_KEY \<mapsto> ''1'']"
          and d = "''[]''" and ts = "''1''" and json_parse = "\<lambda>s. Some (JArr [])"
          and v = "JArr []" and t = 1 and now = 300000]
        hydrate_seeds_iff_fresh [where m = "[CACHE_KEY \<mapsto> ''[]'', CACHE_TIMESTAMP_KEY \<mapsto> ''1'']"
          and d = "''[]''" and ts = "''1''" and json_parse = "\<lambda>s. Some (JArr [])"
          and v = "JArr []" and t = 1 and now = 300001]
  by (simp add: keys_distinct parseInt_def is_space_def is_digit_def digits_val_def digit_val_def
        CACHE_DURATION_def)

text \<open>
  Claim C3, as amended. On every accessible store the restore step returns without an
  exception; when both keys hold non-empty strings and the data blob fails to parse, it
  removes both keys and puts nothing into the query cache.
\<close>

theorem hydrate_contains_parse_failure:
  "\<exists>st'. hydrate json_parse now (initial_state (Granted m)) = Inr st' \<and>
     (m CACHE_KEY = Some d \<and> m CACHE_TIMESTAMP_KEY = Some ts \<and> d \<noteq> [] \<and> ts \<noteq> [] \<and>
      json_parse d = None
        \<longrightarrow> storage st' = Granted (m(CACHE_KEY := None, CACHE_TIMESTAMP_KEY := None)) \<and>
            queryCache st' = Map.empty)"
proof (cases "m CACHE_KEY = Some d \<and> m CACHE_TIMESTAMP_KEY = Some ts \<and> d \<noteq> [] \<and> ts \<noteq> [] \<and>
    json_parse d = None")
  case True
  then show ?thesis
    by (simp add: hydrate_def initial_state_def restore_try_granted restore_catch_granted)
next
  case False
  then show ?thesis
    using hydrate_granted_returns [of json_parse now m Map.empty "[]"]
    by (auto simp: initial_state_def)
qed

theorem hydrate_contains_parse_failure_witness:
  "\<exists>st'. hydrate (\<lambda>s. None) 2
            (initial_state (Granted [CACHE_KEY \<mapsto> ''{bad'', CACHE_TIMESTAMP_KEY \<mapsto> ''1''])) = Inr st' \<and>
     storage st' = Granted Map.empty \<and> queryCache st' = Map.empty"
  using hydrate_contains_parse_failure [where json_parse = "\<lambda>s. None" and now = 2
          and m = "[CACHE_KEY \<mapsto> ''{bad'', CACHE_TIMESTAMP_KEY \<mapsto> ''1'']"
          and d = "''{bad''" and ts = "''1''"]
  by (auto simp: keys_distinct)

text \<open>
  Against claim C3 as stated: a store that holds an unparsable data blob and no time stamp
  is left as it is; the data key is not removed.
\<close>

theorem unparsable_data_without_timestamp_is_kept:
  "hydrate (\<lambda>s. None) 2 (initial_state (Granted [CACHE_KEY \<mapsto> ''{bad''])) =
     Inr \<lparr>storage = Granted [CACHE_KEY \<mapsto> ''{bad''], queryCache = Map.empty, console = []\<rparr>"
  by (simp add: hydrate_def initial_state_def restore_try_skip truthy_str_def keys_distinct
        keys_distinct [symmetric])

text \<open>
  Claim C10, as amended. When both keys hold non-empty strings and the time stamp does not
  parse as an integer, the restore step never fills the query cache: the comparison with
  \<open>NaN\<close> is false, so both keys are removed, without an exception.
\<close>

theorem unparsable_timestamp_record_is_removed:
  assumes "m CACHE_KEY = Some d" "m CACHE_TIMESTAMP_KEY = Some ts" "d \<noteq> []" "ts \<noteq> []"
    and "parseInt ts = None"
  shows "hydrate json_parse now (initial_state (Granted m)) =
           Inr \<lparr>storage = Granted (m(CACHE_KEY := None, CACHE_TIMESTAMP_KEY := None)),
                queryCache = Map.empty, console = []\<rparr>"
  using assms by (simp add: hydrate_def initial_state_def restore_try_granted is_fresh_def)

theorem unparsable_timestamp_record_is_removed_witness:
  "hydrate (\<lambda>s. Some (JArr [])) 2
      (initial_state (Granted [CACHE_KEY \<mapsto> ''[]'', CACHE_TIMESTAMP_KEY \<mapsto> ''soon''])) =
     Inr \<lparr>storage = Granted Map.empty, queryCache = Map.empty, console = []\<rparr>"
  using unparsable_timestamp_record_is_removed [where
          m = "[CACHE_KEY \<mapsto> ''[]'', CACHE_TIMESTAMP_KEY \<mapsto> ''soon'']" and d = "''[]''"
          and ts = "''soon''" and json_parse = "\<lambda>s. Some (JArr [])" and now = 2]
  by (simp add: keys_distinct parseInt_def is_space_def is_digit_def)

text \<open>
  Against claim C10 as stated: both keys are present, the time stamp is the empty string,
  which does not parse; the guard \<open>cachedData && cacheTimestamp\<close> fails and the store
  is left as it is.
\<close>

theorem empty_timestamp_record_is_kept:
  "parseInt [] = None \<and>
   hydrate (\<lambda>s. Some (JArr [])) 2
      (initial_state (Granted [CACHE_KEY \<mapsto> ''[]'', CACHE_TIMESTAMP_KEY \<mapsto> []])) =
     Inr \<lparr>storage = Granted [CACHE_KEY \<mapsto> ''[]'', CACHE_TIMESTAMP_KEY \<mapsto> []],
          queryCache = Map.empty, console = []\<rparr>"
  by (simp add: hydrate_def initial_state_def restore_try_skip truthy_str_def keys_distinct
        parseInt_Nil)

section \<open>Persisting the cache\<close>

text \<open>
  Claim C7, as amended. The listener writes the data and the time stamp exactly when the
  first element of the event's query key is \<open>"projects"\<close> and the query's data is
  truthy, which an empty array is (given an accessible store with room for both writes and
  data that serialises); on every other event, one whose first key element is something
  else or whose data is absent or falsy, it leaves the state as it is.
\<close>

theorem persist_iff_projects_key_and_truthy_data:
  "(\<not> (first_key event = Some (JStr ''projects'') \<and> truthy_opt (event_data event))
      \<longrightarrow> persist_listener stringify room now event st = Inr st) \<and>
   (first_key event = Some (JStr ''projects'') \<and> truthy_opt (event_data event) \<and>
    storage st = Granted m \<and> stringify (the (event_data event)) = Some blob \<and>
    room (m(CACHE_KEY \<mapsto> blob)) \<and>
    room (m(CACHE_KEY \<mapsto> blob, CACHE_TIMESTAMP_KEY \<mapsto> toString now))
      \<longrightarrow> persist_listener stringify room now event st =
            Inr (st\<lparr>storage := Granted (m(CACHE_KEY \<mapsto> blob, CACHE_TIMESTAMP_KEY \<mapsto> toString now))\<rparr>))"
  by (simp add: persist_listener_def persists_def persist_try_granted)

theorem persist_iff_projects_key_and_truthy_data_witness:
  "persist_listener (\<lambda>v. Some ''[1]'') (\<lambda>m. True) 7
      (Some \<lparr>event_type = ''updated'',
             event_query = Some \<lparr>queryKey = Some [JStr ''projects''],
                                 state_data = Some (JArr [JNum 1])\<rparr>\<rparr>)
      (initial_state (Granted Map.empty)) =
     Inr \<lparr>storage = Granted [CACHE_KEY \<mapsto> ''[1]'', CACHE_TIMESTAMP_KEY \<mapsto> ''7''],
          queryCache = Map.empty, console = []\<rparr>
   \<and> persist_listener (\<lambda>v. Some ''[1]'') (\<lambda>m. True) 7
      (Some \<lparr>event_type = ''updated'',
             event_query = Some \<lparr>queryKey = Some [JStr ''todos''],
                                 state_data = Some (JArr [JNum 1])\<rparr>\<rparr>)
      (initial_state (Granted Map.empty)) = Inr (initial_state (Granted Map.empty))
   \<and> persist_listener (\<lambda>v. Some ''[1]'') (\<lambda>m. True) 7
      (Some \<lparr>event_type = ''added'',
             event_query = Some \<lparr>queryKey = Some [JStr ''projects''], state_data = None\<rparr>\<rparr>)
      (initial_state (Granted Map.empty)) = Inr (initial_state (Granted Map.empty))"
  using persist_iff_projects_key_and_truthy_data [where
          event = "Some \<lparr>event_type = ''updated'',
             event_query = Some \<lparr>queryKey = Some [JStr ''projects''],
                                 state_data = Some (JArr [JNum 1])\<rparr>\<rparr>"
          and stringify = "\<lambda>v. Some ''[1]''" and room = "\<lambda>m. True" and now = 7
          and st = "initial_state (Granted Map.empty)" and m = Map.empty and blob = "''[1]''"]
        persist_iff_projects_key_and_truthy_data [where
          event = "Some \<lparr>event_type = ''updated'',
             event_query = Some \<lparr>queryKey = Some [JStr ''todos''],
                                 state_data = Some (JArr [JNum 1])\<rparr>\<rparr>"
          and stringify = "\<lambda>v. Some ''[1]''" and room = "\<lambda>m. True" and now = 7
          and st = "initial_state (Granted Map.empty)" and m = Map.empty and blob = "''[1]''"]
        persist_iff_projects_key_and_truthy_data [where
          event = "Some \<lparr>event_type = ''added'',
             event_query = Some \<lparr>queryKey = Some [JStr ''projects''], state_data = None\<rparr>\<rparr>"
          and stringify = "\<lambda>v. Some ''[1]''" and room = "\<lambda>m. True" and now = 7
          and st = "initial_state (Granted Map.empty)" and m = Map.empty and blob = "''[1]''"]
  by (simp add: first_key_def event_data_def truthy_opt_def initial_state_def toString_def
        digits10.simps digit_char_def)

text \<open>
  Against claim C7 as stated: an event for the key \<open>["projects"]\<close> whose data is the
  empty array is persisted, and so is one for the different key \<open>["projects", 2]\<close>.
\<close>

theorem empty_result_is_persisted:
  "persist_listener (\<lambda>v. Some ''[]'') (\<lambda>m. True) 7
      (Some \<lparr>event_type = ''updated'',
             event_query = Some \<lparr>queryKey = Some [JStr ''projects''],
                                 state_data = Some (JArr [])\<rparr>\<rparr>)
      (initial_state (Granted Map.empty)) =
     Inr \<lparr>storage = Granted [CACHE_KEY \<mapsto> ''[]'', CACHE_TIMESTAMP_KEY \<mapsto> ''7''],
          queryCache = Map.empty, console = []\<rparr>
   \<and> persist_listener (\<lambda>v. Some ''[1]'') (\<lambda>m. True) 7
      (Some \<lparr>event_type = ''updated'',
             event_query = Some \<lparr>queryKey = Some [JStr ''projects'', JNum 2],
                                 state_data = Some (JArr [JNum 1])\<rparr>\<rparr>)
      (initial_state (Granted Map.empty)) =
     Inr \<lparr>storage = Granted [CACHE_KEY \<mapsto> ''[1]'', CACHE_TIMESTAMP_KEY \<mapsto> ''7''],
          queryCache = Map.empty, console = []\<rparr>"
  by (simp add: persist_listener_def persists_def persist_try_granted first_key_def event_data_def
        truthy_opt_def initial_state_def toString_def digits10.simps digit_char_def)

text \<open>
  Claim C8. The listener never throws and never touches the query cache. When the write
  fails, because storage is denied, the data does not serialise, or either of the two
  \<open>setItem\<close> calls exceeds the quota, the error is caught and logged as a warning.
\<close>

theorem persist_failure_is_caught_and_logged:
  "(\<exists>st'. persist_listener stringify room now event st = Inr st' \<and>
          queryCache st' = queryCache st) \<and>
   (persists event \<and> storage st = Denied
      \<longrightarrow> persist_listener stringify room now event st =
            Inr (warn ''Failed to persist cache to localStorage:'' SecurityError st)) \<and>
   (persists event \<and> storage st = Granted m \<and> stringify (the (event_data event)) = None
      \<longrightarrow> persist_listener stringify room now event st =
            Inr (warn ''Failed to persist cache to localStorage:'' TypeError st)) \<and>
   (persists event \<and> storage st = Granted m \<and> stringify (the (event_data event)) = Some blob \<and>
    \<not> room (m(CACHE_KEY \<mapsto> blob))
      \<longrightarrow> persist_listener stringify room now event st =
            Inr (warn ''Failed to persist cache to localStorage:'' QuotaExceededError st)) \<and>
   (persists event \<and> storage st = Granted m \<and> stringify (the (event_data event)) = Some blob \<and>
    room (m(CACHE_KEY \<mapsto> blob)) \<and>
    \<not> room (m(CACHE_KEY \<mapsto> blob, CACHE_TIMESTAMP_KEY \<mapsto> toString now))
      \<longrightarrow> persist_listener stringify room now event st =
            Inr (warn ''Failed to persist cache to localStorage:'' QuotaExceededError
                   (st\<lparr>storage := Granted (m(CACHE_KEY \<mapsto> blob))\<rparr>)))"
  using persist_listener_returns [of stringify room now event st]
  by (cases st)
     (auto simp add: persist_listener_def persist_try_granted persist_try_denied warn_def)

theorem persist_failure_is_caught_and_logged_witness:
  "persist_listener (\<lambda>v. Some ''[1]'') (\<lambda>m. True) 7
      (Some \<lparr>event_type = ''updated'',
             event_query = Some \<lparr>queryKey = Some [JStr ''projects''],
                                 state_data = Some (JArr [JNum 1])\<rparr>\<rparr>)
      (initial_state Denied) =
     Inr \<lparr>storage = Denied, queryCache = Map.empty,
          console = [(''Failed to persist cache to localStorage:'', SecurityError)]\<rparr>
   \<and> persist_listener (\<lambda>v. None) (\<lambda>m. True) 7
      (Some \<lparr>event_type = ''updated'',
             event_query = Some \<lparr>queryKey = Some [JStr ''projects''],
                                 state_data = Some (JArr [JNum 1])\<rparr>\<rparr>)
      (initial_state (Granted Map.empty)) =
     Inr \<lparr>storage = Granted Map.empty, queryCache = Map.empty,
          console = [(''Failed to persist cache to localStorage:'', TypeError)]\<rparr>
   \<and> persist_listener (\<lambda>v. Some ''[1]'') (\<lambda>m. False) 7
      (Some \<lparr>event_type = ''updated'',
             event_query = Some \<lparr>queryKey = Some [JStr ''projects''],
                                 state_data = Some (JArr [JNum 1])\<rparr>\<rparr>)
      (initial_state (Granted Map.empty)) =
     Inr \<lparr>storage = Granted Map.empty, queryCache = Map.empty,
          console = [(''Failed to persist cache to localStorage:'', QuotaExceededError)]\<rparr>
   \<and> persist_listener (\<lambda>v. Some ''[1]'') (\<lambda>m. m CACHE_TIMESTAMP_KEY = None) 7
      (Some \<lparr>event_type = ''updated'',
             event_query = Some \<lparr>queryKey = Some [JStr ''projects''],
                                 state_data = Some (JArr [JNum 1])\<rparr>\<rparr>)
      (initial_state (Granted Map.empty)) =
     Inr \<lparr>storage = Granted [CACHE_KEY \<mapsto> ''[1]''], queryCache = Map.empty,
          console = [(''Failed to persist cache to localStorage:'', QuotaExceededError)]\<rparr>"
  using persist_failure_is_caught_and_logged [where stringify = "\<lambda>v. Some ''[1]''"
          and room = "\<lambda>m. True" and now = 7
          and event = "Some \<lparr>event_type = ''updated'',
             event_query = Some \<lparr>queryKey = Some [JStr ''projects''],
                                 state_data = Some (JArr [JNum 1])\<rparr>\<rparr>"
          and st = "initial_state Denied" and m = Map.empty and blob = "''[1]''"]
        persist_failure_is_caught_and_logged [where stringify = "\<lambda>v. None"
          and room = "\<lambda>m. True" and now = 7
          and event = "Some \<lparr>event_type = ''updated'',
             event_query = Some \<lparr>queryKey = Some [JStr ''projects''],
                                 state_data = Some (JArr [JNum 1])\<rparr>\<rparr>"
          and st = "initial_state (Granted Map.empty)" and m = Map.empty and blob = "''[1]''"]
        persist_failure_is_caught_and_logged [where stringify = "\<lambda>v. Some ''[1]''"
          and room = "\<lambda>m. False" and now = 7
          and event = "Some \<lparr>event_type = ''updated'',
             event_query = Some \<lparr>queryKey = Some [JStr ''projects''],
                                 state_data = Some (JArr [JNum 1])\<rparr>\<rparr>"
          and st = "initial_state (Granted Map.empty)" and m = Map.empty and blob = "''[1]''"]
        persist_failure_is_caught_and_logged [where stringify = "\<lambda>v. Some ''[1]''"
          and room = "\<lambda>m. m CACHE_TIMESTAMP_KEY = None" and now = 7
          and event = "Some \<lparr>event_type = ''updated'',
             event_query = Some \<lparr>queryKey = Some [JStr ''projects''],
                                 state_data = Some (JArr [JNum 1])\<rparr>\<rparr>"
          and st = "initial_state (Granted Map.empty)" and m = Map.empty and blob = "''[1]''"]
  by (simp add: persists_def first_key_def event_data_def truthy_opt_def initial_state_def
        warn_def keys_distinct keys_distinct [symmetric])

section \<open>Retrying a failed fetch\<close>

text \<open>
  Claim C9. The client's retry count is 1. When the first call of the content source and
  its one retry both fail, the cycle ends after exactly two calls, and
  \<open>useFetchProjects\<close> returns the data known before, or the empty list when there is
  none, with \<open>loading\<close> false; when the retry succeeds, it returns the retry's projects.
\<close>

theorem failed_fetch_retried_once:
  "retry defaultOptions = 1 \<and>
   (getEntries 0 = Inl e0 \<and> getEntries 1 = Inl e1 \<longrightarrow>
      fetch_cycle (retry defaultOptions) (\<lambda>k. fetchProjects (getEntries k)) 0 = (Inl e1, 2) \<and>
      useFetchProjects known getEntries =
        \<lparr>loading = False, projects = (case known of None \<Rightarrow> [] | Some d \<Rightarrow> d)\<rparr>) \<and>
   (getEntries 0 = Inl e0 \<and> getEntries 1 = Inr items \<longrightarrow>
      useFetchProjects known getEntries = \<lparr>loading = False, projects = mappedProjects items\<rparr>)"
  by (simp add: defaultOptions_def useFetchProjects_def useQuery_def settle_def fetchProjects_def
        Let_def numeral_2_eq_2)

theorem failed_fetch_retried_once_witness:
  "fetch_cycle (retry defaultOptions) (\<lambda>k. fetchProjects ((\<lambda>k. Inl NetworkError) k)) 0 =
     (Inl NetworkError, 2) \<and>
   useFetchProjects None (\<lambda>k. Inl NetworkError) = \<lparr>loading = False, projects = []\<rparr> \<and>
   useFetchProjects None
     (\<lambda>k. if k = 0 then Inl NetworkError
          else Inr [\<lparr>entry_fields = \<lparr>field_title = Some ''A'', field_url = Some ''u1'',
                                     field_image = None\<rparr>,
                     entry_sys = \<lparr>sys_id = ''1''\<rparr>\<rparr>]) =
     \<lparr>loading = False,
      projects = [\<lparr>title = Some ''A'', url = Some ''u1'', ident = ''1'', img = None\<rparr>]\<rparr>"
  using failed_fetch_retried_once [where getEntries = "\<lambda>k. Inl NetworkError"
          and ?e0.0 = NetworkError and ?e1.0 = NetworkError and known = None and items = "[]"]
        failed_fetch_retried_once [where getEntries =
            "\<lambda>k. if k = 0 then Inl NetworkError
                 else Inr [\<lparr>entry_fields = \<lparr>field_title = Some ''A'', field_url = Some ''u1'',
                                            field_image = None\<rparr>,
                            entry_sys = \<lparr>sys_id = ''1''\<rparr>\<rparr>]"
          and ?e0.0 = NetworkError and ?e1.0 = NetworkError and known = None
          and items = "[\<lparr>entry_fields = \<lparr>field_title = Some ''A'', field_url = Some ''u1'',
                                          field_image = None\<rparr>,
                          entry_sys = \<lparr>sys_id = ''1''\<rparr>\<rparr>]"]
  by (auto simp: mappedProjects_def project_of_def image_url_def Let_def)

end
